theory Spec2Isabelle
  imports Main "HOL-Library.Sublist"
begin

section \<open>JavaScript values and completions\<close>

text \<open>
  The values that flow through \<^verbatim>\<open>account-storage.ts\<close> and \<^verbatim>\<open>oauth-flow.ts\<close>: what
  \<^verbatim>\<open>JSON.parse\<close> produces, plus \<^verbatim>\<open>undefined\<close>. The payload of a number is never
  inspected by the code modelled here (only its \<^verbatim>\<open>typeof\<close>), so an integer stands for
  it. An object is the list of its own properties; its keys are distinct (as
  \<^verbatim>\<open>JSON.parse\<close> and object literals produce them).
\<close>

datatype jsval =
    JUndefined
  | JNull
  | JBool bool
  | JNumber int
  | JString string
  | JArray "jsval list"
  | JObject "(string \<times> jsval) list"

text \<open>What a JavaScript operation throws. \<open>Error msg\<close> is \<^verbatim>\<open>new Error(msg)\<close>.\<close>

datatype js_error = TypeError | SyntaxError | URIError | ENOENT | Error string

text \<open>
  A call either returns a value (\<open>Inr\<close>) or throws (\<open>Inl\<close>); \<open>andThen\<close> sequences
  two steps, the second skipped when the first throws.
\<close>

type_synonym 'a completion = "js_error + 'a"

definition andThen :: "'a completion \<Rightarrow> ('a \<Rightarrow> 'b completion) \<Rightarrow> 'b completion" where
  "andThen m f = (case m of Inl e \<Rightarrow> Inl e | Inr v \<Rightarrow> f v)"

text \<open>The \<^verbatim>\<open>typeof\<close> operator. Note \<^verbatim>\<open>typeof null === "object"\<close>.\<close>

fun typeof :: "jsval \<Rightarrow> string" where
  "typeof JUndefined = ''undefined''"
| "typeof JNull = ''object''"
| "typeof (JBool b) = ''boolean''"
| "typeof (JNumber n) = ''number''"
| "typeof (JString s) = ''string''"
| "typeof (JArray xs) = ''object''"
| "typeof (JObject kvs) = ''object''"

text \<open>
  Truthiness, as \<^verbatim>\<open>!x\<close> and \<^verbatim>\<open>if (x)\<close> test it: \<^verbatim>\<open>undefined\<close>, \<^verbatim>\<open>null\<close>,
  \<^verbatim>\<open>false\<close>, \<^verbatim>\<open>0\<close> and the empty string are falsy.
\<close>

fun truthy :: "jsval \<Rightarrow> bool" where
  "truthy JUndefined = False"
| "truthy JNull = False"
| "truthy (JBool b) = b"
| "truthy (JNumber n) = (n \<noteq> 0)"
| "truthy (JString s) = (s \<noteq> [])"
| "truthy (JArray xs) = True"
| "truthy (JObject kvs) = True"

text \<open>
  Reading a property \<^verbatim>\<open>v.k\<close>, for a name \<open>k\<close> that is neither an index, nor
  \<^verbatim>\<open>length\<close>, nor inherited from a prototype (the names the code reads,
  \<^verbatim>\<open>email\<close>, \<^verbatim>\<open>oauth2\<close>, \<^verbatim>\<open>clientId\<close>, \<^verbatim>\<open>clientSecret\<close>, \<^verbatim>\<open>refreshToken\<close>, are
  such): it throws a TypeError on \<^verbatim>\<open>null\<close> and \<^verbatim>\<open>undefined\<close>, gives the property's
  value on an object that has it, and \<^verbatim>\<open>undefined\<close> everywhere else.
\<close>

fun get :: "jsval \<Rightarrow> string \<Rightarrow> jsval completion" where
  "get JUndefined k = Inl TypeError"
| "get JNull k = Inl TypeError"
| "get (JObject kvs) k = Inr (case map_of kvs k of None \<Rightarrow> JUndefined | Some v \<Rightarrow> v)"
| "get v k = Inr JUndefined"

text \<open>\<^verbatim>\<open>String.prototype.includes\<close>: \<open>sub\<close> occurs somewhere in \<open>s\<close>.\<close>

fun str_includes :: "string \<Rightarrow> string \<Rightarrow> bool" where
  "str_includes [] sub = (sub = [])"
| "str_includes (c # cs) sub = (prefix sub (c # cs) \<or> str_includes cs sub)"

section \<open>The JavaScript Map of accounts\<close>

text \<open>
  A \<^verbatim>\<open>Map\<close> keeps its entries in insertion order; \<^verbatim>\<open>set\<close> on a key that is present
  replaces the value in place, \<^verbatim>\<open>set\<close> on a new key appends. Keys are compared by
  value (for the strings used here, string equality).
\<close>

type_synonym js_map = "(jsval \<times> jsval) list"

definition Map_has :: "js_map \<Rightarrow> jsval \<Rightarrow> bool" where
  "Map_has m k = (map_of m k \<noteq> None)"

definition Map_get :: "js_map \<Rightarrow> jsval \<Rightarrow> jsval" where
  "Map_get m k = (case map_of m k of None \<Rightarrow> JUndefined | Some v \<Rightarrow> v)"

definition Map_set :: "js_map \<Rightarrow> jsval \<Rightarrow> jsval \<Rightarrow> js_map" where
  "Map_set m k v =
     (if Map_has m k then map (\<lambda>(k', v'). if k' = k then (k', v) else (k', v')) m
      else m @ [(k, v)])"

definition Map_delete :: "js_map \<Rightarrow> jsval \<Rightarrow> js_map" where
  "Map_delete m k = filter (\<lambda>(k', v'). k' \<noteq> k) m"

definition Map_values :: "js_map \<Rightarrow> jsval list" where
  "Map_values m = map snd m"

section \<open>The two files of the configuration directory\<close>

text \<open>
  The store reads and writes two files, \<^verbatim>\<open>accounts.json\<close> and \<^verbatim>\<open>credentials.json\<close>.
  A file is absent (\<open>None\<close>) or has a text. \<open>written\<close> logs every
  \<^verbatim>\<open>writeFileSync\<close> call, oldest first. Writing is taken to succeed.
\<close>

datatype path = AccountsFile | CredentialsFile

record disk =
  accounts_json :: "string option"
  credentials_json :: "string option"
  written :: "(path \<times> string) list"

fun content :: "disk \<Rightarrow> path \<Rightarrow> string option" where
  "content d AccountsFile = accounts_json d"
| "content d CredentialsFile = credentials_json d"

definition existsSync :: "disk \<Rightarrow> path \<Rightarrow> bool" where
  "existsSync d p = (content d p \<noteq> None)"

definition readFileSync :: "disk \<Rightarrow> path \<Rightarrow> string completion" where
  "readFileSync d p = (case content d p of None \<Rightarrow> Inl ENOENT | Some t \<Rightarrow> Inr t)"

fun writeFileSync :: "disk \<Rightarrow> path \<Rightarrow> string \<Rightarrow> disk" where
  "writeFileSync d AccountsFile t =
     d\<lparr>accounts_json := Some t, written := written d @ [(AccountsFile, t)]\<rparr>"
| "writeFileSync d CredentialsFile t =
     d\<lparr>credentials_json := Some t, written := written d @ [(CredentialsFile, t)]\<rparr>"

section \<open>AccountStorage\<close>

text \<open>
  The object's state: the \<^verbatim>\<open>accounts\<close> map and the disk it works on.
  \<^verbatim>\<open>JSON.parse\<close> and \<^verbatim>\<open>JSON.stringify(\<cdot>, null, 2)\<close> belong to the runtime, not to the
  repository: every operation that calls one takes it as a parameter
  (\<open>JSON_parse\<close>, which throws on malformed text, and \<open>JSON_stringify\<close>).
\<close>

record AccountStorage =
  accounts :: js_map
  fs :: disk

text \<open>
  \<^verbatim>\<open>isValidAccount\<close>, statement by statement; \<^verbatim>\<open>&&\<close> evaluates its right operand
  only when the left one holds.
\<close>

definition isValidAccount :: "jsval \<Rightarrow> bool completion" where
  "isValidAccount account =
     (if typeof account \<noteq> ''object'' \<or> account = JNull then Inr False
      else andThen (get account ''email'') (\<lambda>email.
        if typeof email \<noteq> ''string'' then Inr False
        else andThen (get account ''oauth2'') (\<lambda>oauth2.
          if typeof oauth2 \<noteq> ''object'' \<or> oauth2 = JNull then Inr False
          else andThen (get oauth2 ''clientId'') (\<lambda>clientId.
            if typeof clientId \<noteq> ''string'' then Inr False
            else andThen (get oauth2 ''clientSecret'') (\<lambda>clientSecret.
              if typeof clientSecret \<noteq> ''string'' then Inr False
              else andThen (get oauth2 ''refreshToken'') (\<lambda>refreshToken.
                Inr (typeof refreshToken = ''string'')))))))"

text \<open>
  The \<^verbatim>\<open>for (const account of data)\<close> loop of \<^verbatim>\<open>loadAccounts\<close>. It returns the map
  as it stands when the loop ends, and what was thrown, if anything was.
\<close>

fun load_each :: "js_map \<Rightarrow> jsval list \<Rightarrow> js_map \<times> js_error option" where
  "load_each m [] = (m, None)"
| "load_each m (account # rest) =
     (case isValidAccount account of
        Inl e \<Rightarrow> (m, Some e)
      | Inr ok \<Rightarrow>
          if ok then
            (case get account ''email'' of
               Inl e \<Rightarrow> (m, Some e)
             | Inr email \<Rightarrow> load_each (Map_set m email account) rest)
          else load_each m rest)"

text \<open>
  \<^verbatim>\<open>loadAccounts\<close>. Everything after the \<^verbatim>\<open>existsSync\<close> test is inside
  \<^verbatim>\<open>try { ... } catch { }\<close>: whatever is thrown is dropped, and the map stays as
  the statements run so far left it. \<^verbatim>\<open>Array.isArray(data)\<close> holds exactly of a
  \<open>JArray\<close>.
\<close>

definition loadAccounts :: "(string \<Rightarrow> jsval completion) \<Rightarrow> AccountStorage \<Rightarrow> AccountStorage completion" where
  "loadAccounts JSON_parse this =
     (if existsSync (fs this) AccountsFile then
        (case andThen (readFileSync (fs this) AccountsFile) JSON_parse of
           Inl e \<Rightarrow> Inr this
         | Inr data \<Rightarrow>
             (case data of
                JArray xs \<Rightarrow> Inr (this\<lparr>accounts := fst (load_each (accounts this) xs)\<rparr>)
              | _ \<Rightarrow> Inr this))
      else Inr this)"

text \<open>The constructor's part on the map: a fresh empty map, then \<^verbatim>\<open>loadAccounts\<close>.\<close>

definition new_AccountStorage :: "(string \<Rightarrow> jsval completion) \<Rightarrow> disk \<Rightarrow> AccountStorage completion" where
  "new_AccountStorage JSON_parse d = loadAccounts JSON_parse \<lparr>accounts = [], fs = d\<rparr>"

definition saveAccounts :: "(jsval \<Rightarrow> string) \<Rightarrow> AccountStorage \<Rightarrow> AccountStorage" where
  "saveAccounts JSON_stringify this =
     this\<lparr>fs := writeFileSync (fs this) AccountsFile
                   (JSON_stringify (JArray (Map_values (accounts this))))\<rparr>"

definition addAccount :: "(jsval \<Rightarrow> string) \<Rightarrow> AccountStorage \<Rightarrow> jsval \<Rightarrow> AccountStorage completion" where
  "addAccount JSON_stringify this account =
     andThen (get account ''email'') (\<lambda>email.
       Inr (saveAccounts JSON_stringify (this\<lparr>accounts := Map_set (accounts this) email account\<rparr>)))"

definition getAccount :: "AccountStorage \<Rightarrow> string \<Rightarrow> jsval" where
  "getAccount this email = Map_get (accounts this) (JString email)"

definition getAllAccounts :: "AccountStorage \<Rightarrow> jsval list" where
  "getAllAccounts this = Map_values (accounts this)"

definition deleteAccount :: "(jsval \<Rightarrow> string) \<Rightarrow> AccountStorage \<Rightarrow> string \<Rightarrow> AccountStorage \<times> bool" where
  "deleteAccount JSON_stringify this email =
     (let deleted = Map_has (accounts this) (JString email);
          this' = this\<lparr>accounts := Map_delete (accounts this) (JString email)\<rparr>
      in if deleted then (saveAccounts JSON_stringify this', deleted) else (this', deleted))"

definition hasAccount :: "AccountStorage \<Rightarrow> string \<Rightarrow> bool" where
  "hasAccount this email = Map_has (accounts this) (JString email)"

definition setCredentials :: "(jsval \<Rightarrow> string) \<Rightarrow> AccountStorage \<Rightarrow> string \<Rightarrow> string \<Rightarrow> AccountStorage" where
  "setCredentials JSON_stringify this clientId clientSecret =
     this\<lparr>fs := writeFileSync (fs this) CredentialsFile
                   (JSON_stringify (JObject [(''clientId'', JString clientId),
                                             (''clientSecret'', JString clientSecret)]))\<rparr>"

text \<open>
  \<^verbatim>\<open>getCredentials\<close>: the \<^verbatim>\<open>existsSync\<close> test stands before the \<^verbatim>\<open>try\<close>; reading,
  parsing and the two property reads stand inside it, and the \<^verbatim>\<open>catch\<close> returns
  \<^verbatim>\<open>null\<close>.
\<close>

definition getCredentials :: "(string \<Rightarrow> jsval completion) \<Rightarrow> AccountStorage \<Rightarrow> jsval completion" where
  "getCredentials JSON_parse this =
     (if \<not> existsSync (fs this) CredentialsFile then Inr JNull
      else
        (case andThen (andThen (readFileSync (fs this) CredentialsFile) JSON_parse) (\<lambda>data.
                andThen (get data ''clientId'') (\<lambda>clientId.
                  if typeof clientId \<noteq> ''string'' then Inr JNull
                  else andThen (get data ''clientSecret'') (\<lambda>clientSecret.
                    if typeof clientSecret = ''string'' then Inr data else Inr JNull))) of
           Inl e \<Rightarrow> Inr JNull
         | Inr r \<Rightarrow> Inr r))"

subsection \<open>The validity check, in words\<close>

text \<open>
  What the checks of \<^verbatim>\<open>isValidAccount\<close> amount to: \<open>string_prop v k\<close> says that
  \<open>v\<close> has a property \<open>k\<close> whose value is a string, \<open>string_fields\<close> that
  \<^verbatim>\<open>email\<close>, \<^verbatim>\<open>oauth2.clientId\<close>, \<^verbatim>\<open>oauth2.clientSecret\<close> and
  \<^verbatim>\<open>oauth2.refreshToken\<close> are strings.
\<close>

definition string_prop :: "jsval \<Rightarrow> string \<Rightarrow> bool" where
  "string_prop v k = (case get v k of Inr (JString s) \<Rightarrow> True | _ \<Rightarrow> False)"

definition string_fields :: "jsval \<Rightarrow> bool" where
  "string_fields account =
     (string_prop account ''email'' \<and>
      (case get account ''oauth2'' of
         Inl e \<Rightarrow> False
       | Inr oauth2 \<Rightarrow> string_prop oauth2 ''clientId'' \<and> string_prop oauth2 ''clientSecret''
                       \<and> string_prop oauth2 ''refreshToken''))"

text \<open>
  The Account Record invariant in the specification's words: \<^verbatim>\<open>email\<close> is a non-empty
  string and \<^verbatim>\<open>oauth2.clientId\<close>, \<^verbatim>\<open>oauth2.clientSecret\<close>, \<^verbatim>\<open>oauth2.refreshToken\<close>
  are all non-empty strings.
\<close>

definition nonempty_string_prop :: "jsval \<Rightarrow> string \<Rightarrow> bool" where
  "nonempty_string_prop v k = (case get v k of Inr (JString s) \<Rightarrow> s \<noteq> [] | _ \<Rightarrow> False)"

definition Account_Record_invariant :: "jsval \<Rightarrow> bool" where
  "Account_Record_invariant account =
     (nonempty_string_prop account ''email'' \<and>
      (case get account ''oauth2'' of
         Inl e \<Rightarrow> False
       | Inr oauth2 \<Rightarrow> nonempty_string_prop oauth2 ''clientId''
                       \<and> nonempty_string_prop oauth2 ''clientSecret''
                       \<and> nonempty_string_prop oauth2 ''refreshToken''))"

section \<open>OAuthFlow\<close>

subsection \<open>extractCodeFromUrl\<close>

text \<open>
  \<^verbatim>\<open>url.match(/code=([^&]+)/)\<close>, giving the first capture group: at the leftmost
  position where \<^verbatim>\<open>code=\<close> is followed by at least one character other than
  \<^verbatim>\<open>&\<close>, the longest run of such characters.
\<close>

definition capture_code :: "string \<Rightarrow> string option" where
  "capture_code s =
     (if prefix ''code='' s \<and> takeWhile (\<lambda>c. c \<noteq> CHR ''&'') (drop 5 s) \<noteq> []
      then Some (takeWhile (\<lambda>c. c \<noteq> CHR ''&'') (drop 5 s)) else None)"

fun match_code :: "string \<Rightarrow> string option" where
  "match_code [] = None"
| "match_code (c # cs) =
     (case capture_code (c # cs) of Some g \<Rightarrow> Some g | None \<Rightarrow> match_code cs)"

text \<open>
  \<^verbatim>\<open>new URL(url).searchParams.get(name)\<close> and \<^verbatim>\<open>decodeURIComponent\<close> belong to the
  runtime and are parameters: \<open>URL_param url name\<close> throws when \<open>url\<close> is not an
  absolute URL and otherwise gives the parameter's value or \<^verbatim>\<open>null\<close> (\<open>None\<close>);
  \<open>decodeURIComponent\<close> throws on a malformed escape. The \<^verbatim>\<open>catch\<close> block runs
  whatever the \<^verbatim>\<open>try\<close> block threw, its own \<^verbatim>\<open>throw\<close> included.
\<close>

definition extractCodeFromUrl ::
  "(string \<Rightarrow> string \<Rightarrow> string option completion) \<Rightarrow> (string \<Rightarrow> string completion)
     \<Rightarrow> string \<Rightarrow> string completion" where
  "extractCodeFromUrl URL_param decodeURIComponent url =
     (case andThen (URL_param url ''code'') (\<lambda>code.
             case code of
               None \<Rightarrow> Inl (Error ''No authorization code found in URL'')
             | Some c \<Rightarrow> if c = [] then Inl (Error ''No authorization code found in URL'')
                         else Inr c) of
        Inr code \<Rightarrow> Inr code
      | Inl e \<Rightarrow>
          if str_includes url ''code='' then
            (case match_code url of
               Some g \<Rightarrow> decodeURIComponent g
             | None \<Rightarrow> Inl (Error ''Invalid redirect URL''))
          else Inl (Error ''Invalid redirect URL''))"

subsection \<open>exchangeCode\<close>

text \<open>
  The two fields \<^verbatim>\<open>exchangeCode\<close> reads of the tokens the token endpoint returned,
  and its result. \<open>getToken\<close> is the call to the endpoint, a parameter; the promise
  it returns is rejected (\<open>Inl\<close>) or fulfilled (\<open>Inr\<close>).
\<close>

record Credentials =
  refresh_token :: jsval
  access_token :: jsval

record OAuthResult =
  refreshToken :: jsval
  accessToken :: jsval

text \<open>\<^verbatim>\<open>a ?? b\<close>.\<close>

definition nullish_or :: "jsval \<Rightarrow> jsval \<Rightarrow> jsval" where
  "nullish_or a b = (if a = JNull \<or> a = JUndefined then b else a)"

definition exchangeCode :: "(string \<Rightarrow> Credentials completion) \<Rightarrow> string \<Rightarrow> OAuthResult completion" where
  "exchangeCode getToken code =
     andThen (getToken code) (\<lambda>tokens.
       if \<not> truthy (refresh_token tokens) then
         Inl (Error ''No refresh token received. Try revoking app access and re-authorizing.'')
       else
         Inr \<lparr>refreshToken = refresh_token tokens,
              accessToken = nullish_or (access_token tokens) JUndefined\<rparr>)"

subsection \<open>authorizeBrowser\<close>

text \<open>
  The promise \<^verbatim>\<open>authorizeBrowser\<close> returns is settled by callbacks: the request
  handler of the local server, the server's \<^verbatim>\<open>error\<close> handler and the timer. The
  model is the state these callbacks share and one step per event; each step is the
  body of the callback, with no test the callback does not make.

  \<^item> \<open>server\<close>: \<open>Starting\<close> after \<^verbatim>\<open>server.listen\<close> is called, \<open>Listening\<close> once the
    port is bound, \<open>Closed\<close> once \<^verbatim>\<open>server.close()\<close> was called. \<^verbatim>\<open>listen\<close> is
    called once, so a closed server does not listen again.
  \<^item> \<open>promise\<close>: \<open>None\<close> while pending, then what it was rejected (\<open>Inl\<close>) or
    resolved (\<open>Inr\<close>) with; \<^verbatim>\<open>resolve\<close> and \<^verbatim>\<open>reject\<close> on a settled promise do
    nothing.
  \<^item> \<open>responses\<close>: the status codes written, oldest first.
  \<^item> \<open>awaited\<close>: the codes whose \<^verbatim>\<open>exchangeCode\<close> call has been made and not yet
    returned; \<open>exchanged\<close>: every code \<^verbatim>\<open>exchangeCode\<close> was called with;
    \<open>denied\<close>: every \<^verbatim>\<open>error\<close> parameter the handler rejected with.
  \<^item> \<open>unhandled\<close>: what the request handler itself threw; the handler is an
    \<^verbatim>\<open>async\<close> function nobody awaits, so this is an unhandled rejection.
\<close>

datatype server_state = Starting | Listening | Closed

record flow_state =
  server :: server_state
  promise :: "OAuthResult completion option"
  responses :: "nat list"
  awaited :: "string list"
  exchanged :: "string list"
  denied :: "string list"
  unhandled :: "js_error list"



definition settle :: "OAuthResult completion \<Rightarrow> flow_state \<Rightarrow> flow_state" where
  "settle r st = (if promise st = None then st\<lparr>promise := Some r\<rparr> else st)"






section \<open>The command line: accounts add\<close>

text \<open>
  The \<^verbatim>\<open>case "add"\<close> branch of \<^verbatim>\<open>handleAccounts\<close>. Its state is the store, the
  lines printed, and the number of times the authorization flow
  (\<^verbatim>\<open>flow.authorize\<close>, which talks to the browser and the token endpoint) was started.
  \<open>authorize\<close> is that flow, a parameter. \<^verbatim>\<open>error(msg)\<close> prints and calls
  \<^verbatim>\<open>process.exit(1)\<close>, so nothing after it runs.
\<close>

record cli_state =
  storage :: AccountStorage
  console :: "string list"
  authorizations :: nat

datatype outcome = Returned | Exited nat | Thrown js_error

definition error_exit :: "cli_state \<Rightarrow> string \<Rightarrow> cli_state \<times> outcome" where
  "error_exit w msg = (w\<lparr>console := console w @ [''Error: '' @ msg]\<rparr>, Exited 1)"

definition quoted :: "string \<Rightarrow> string" where
  "quoted s = [CHR 0x27] @ s @ [CHR 0x27]"

definition handleAccounts_add ::
  "(string \<Rightarrow> jsval completion) \<Rightarrow> (jsval \<Rightarrow> string) \<Rightarrow> (bool \<Rightarrow> OAuthResult completion)
     \<Rightarrow> cli_state \<Rightarrow> string list \<Rightarrow> cli_state \<times> outcome" where
  "handleAccounts_add JSON_parse JSON_stringify authorize w args =
     (let manual = (''--manual'' \<in> set args);
          filtered = filter (\<lambda>a. a \<noteq> ''--manual'') (drop 1 args)
      in case filtered of
           [] \<Rightarrow> error_exit w ''Usage: accounts add <email> [--manual]''
         | email # _ \<Rightarrow>
             if email = [] then error_exit w ''Usage: accounts add <email> [--manual]''
             else if hasAccount (storage w) email then
               error_exit w (''Account '' @ quoted email @ '' already exists'')
             else
               (case getCredentials JSON_parse (storage w) of
                  Inl e \<Rightarrow> (w, Thrown e)
                | Inr creds \<Rightarrow>
                    if \<not> truthy creds then
                      error_exit w
                        ''No credentials configured. Run: gtcli accounts credentials <credentials.json>''
                    else
                      (case andThen (get creds ''clientId'') (\<lambda>clientId.
                              andThen (get creds ''clientSecret'') (\<lambda>clientSecret.
                                Inr (clientId, clientSecret))) of
                         Inl e \<Rightarrow> (w, Thrown e)
                       | Inr (clientId, clientSecret) \<Rightarrow>
                           (let w1 = w\<lparr>authorizations := authorizations w + 1\<rparr> in
                            case authorize manual of
                              Inl e \<Rightarrow> (w1, Thrown e)
                            | Inr result \<Rightarrow>
                                (let account =
                                   JObject [(''email'', JString email),
                                            (''oauth2'',
                                             JObject [(''clientId'', clientId),
                                                      (''clientSecret'', clientSecret),
                                                      (''refreshToken'', refreshToken result),
                                                      (''accessToken'', accessToken result)])]
                                 in case addAccount JSON_stringify (storage w1) account of
                                      Inl e \<Rightarrow> (w1, Thrown e)
                                    | Inr storage' \<Rightarrow>
                                        (w1\<lparr>storage := storage',
                                            console := console w1
                                              @ [''Account '' @ quoted email @ '' added'']\<rparr>,
                                         Returned))))))"

section \<open>Runtime functions at concrete inputs\<close>

text \<open>
  To run the model on a concrete file or redirect string, the runtime parameters are
  given by finite tables: the texts (values, URLs, codes) listed and what the runtime
  function yields on each. Outside its table such a function throws (or gives the
  empty text). The examples below use it outside its table only on a text that
  \<^verbatim>\<open>JSON.parse\<close> rejects as well, or where the text written is not read again.
\<close>

definition JSON_parse_of :: "(string \<times> jsval) list \<Rightarrow> string \<Rightarrow> jsval completion" where
  "JSON_parse_of table t = (case map_of table t of None \<Rightarrow> Inl SyntaxError | Some v \<Rightarrow> Inr v)"

definition JSON_stringify_of :: "(jsval \<times> string) list \<Rightarrow> jsval \<Rightarrow> string" where
  "JSON_stringify_of table v = (case map_of table v of None \<Rightarrow> [] | Some t \<Rightarrow> t)"

definition URL_param_of ::
  "((string \<times> string) \<times> string option completion) list \<Rightarrow> string \<Rightarrow> string
     \<Rightarrow> string option completion" where
  "URL_param_of table url name =
     (case map_of table (url, name) of None \<Rightarrow> Inl TypeError | Some r \<Rightarrow> r)"

definition decodeURIComponent_of :: "(string \<times> string) list \<Rightarrow> string \<Rightarrow> string completion" where
  "decodeURIComponent_of table s = (case map_of table s of None \<Rightarrow> Inl URIError | Some r \<Rightarrow> Inr r)"

definition getToken_of :: "(string \<times> Credentials completion) list \<Rightarrow> string \<Rightarrow> Credentials completion" where
  "getToken_of table code =
     (case map_of table code of None \<Rightarrow> Inl (Error ''invalid_grant'') | Some r \<Rightarrow> r)"

section \<open>Properties of the account store\<close>

subsection \<open>The map\<close>

lemma map_of_Map_set: "map_of (Map_set m k v) k' = (if k' = k then Some v else map_of m k')"
proof (cases "Map_has m k")
  case True
  have "map_of (map (\<lambda>(k', v'). if k' = k then (k', v) else (k', v')) m) k'
        = (if k' = k then (if map_of m k = None then None else Some v) else map_of m k')"
    by (induction m) auto
  with True show ?thesis by (auto simp: Map_set_def Map_has_def)
next
  case False
  then show ?thesis by (auto simp: Map_set_def Map_has_def map_add_def split: option.splits)
qed

lemma values_Map_set: "set (Map_values (Map_set m k v)) \<subseteq> insert v (set (Map_values m))"
  by (auto simp: Map_set_def Map_values_def split: if_splits)

lemma keys_Map_set: "map fst (Map_set m k v) = (if Map_has m k then map fst m else map fst m @ [k])"
  by (auto simp: Map_set_def split: if_splits)

lemma distinct_Map_set: "distinct (map fst m) \<Longrightarrow> distinct (map fst (Map_set m k v))"
  by (auto simp: keys_Map_set Map_has_def map_of_eq_None_iff)

lemma Map_get_Map_set: "Map_get (Map_set m k v) k' = (if k' = k then v else Map_get m k')"
  by (simp add: Map_get_def map_of_Map_set)

lemma Map_has_Map_set: "Map_has (Map_set m k v) k' = (k' = k \<or> Map_has m k')"
  by (simp add: Map_has_def map_of_Map_set)

lemma map_of_Map_delete: "map_of (Map_delete m k) k' = (if k' = k then None else map_of m k')"
  unfolding Map_delete_def by (induction m) auto

lemma Map_delete_absent: "\<not> Map_has m k \<Longrightarrow> Map_delete m k = m"
  unfolding Map_delete_def Map_has_def
  by (induction m) (auto split: if_splits)

subsection \<open>The validity check\<close>

lemma string_prop_iff: "string_prop v k \<longleftrightarrow> (\<exists>s. get v k = Inr (JString s))"
  unfolding string_prop_def by (auto split: sum.splits jsval.splits)

lemma isValidAccount_eq: "isValidAccount a = Inr (string_fields a)"
proof (cases a)
  case (JObject kvs)
  show ?thesis
  proof (cases "get a ''oauth2''")
    case (Inl e) then show ?thesis using JObject by simp
  next
    case (Inr ob)
    then show ?thesis using JObject
      apply (cases ob)
      apply (auto simp: isValidAccount_def string_fields_def string_prop_def andThen_def
              split: option.splits jsval.splits)
      done
  qed
qed (simp_all add: isValidAccount_def string_fields_def string_prop_def andThen_def)

lemma invariant_accepted: "Account_Record_invariant a \<Longrightarrow> isValidAccount a = Inr True"
  by (auto simp: isValidAccount_eq string_fields_def string_prop_def Account_Record_invariant_def
        nonempty_string_prop_def split: sum.splits jsval.splits)

lemma valid_email: "isValidAccount a = Inr True \<Longrightarrow> \<exists>e. get a ''email'' = Inr (JString e)"
  by (simp add: isValidAccount_eq string_fields_def string_prop_iff)

lemma load_each_step:
  "load_each m (a # rest) =
     (if isValidAccount a = Inr True
      then (case get a ''email'' of Inl e \<Rightarrow> (m, Some e) | Inr k \<Rightarrow> load_each (Map_set m k a) rest)
      else load_each m rest)"
  by (simp add: isValidAccount_eq)

lemma load_each_no_throw: "snd (load_each m xs) = None"
proof (induction xs arbitrary: m)
  case (Cons a xs)
  then show ?case using valid_email[of a] by (auto simp: load_each_step simp del: load_each.simps(2))
qed simp

lemma load_each_lookup:
  "map_of (fst (load_each m xs)) k =
     (case filter (\<lambda>a. isValidAccount a = Inr True \<and> get a ''email'' = Inr k) xs of
        [] \<Rightarrow> map_of m k
      | ys \<Rightarrow> Some (last ys))"
proof (induction xs arbitrary: m)
  case (Cons a xs)
  show ?case
  proof (cases "isValidAccount a = Inr True")
    case True
    then obtain e where e: "get a ''email'' = Inr (JString e)" using valid_email by blast
    show ?thesis using True e Cons.IH[of "Map_set m (JString e) a"]
      by (auto simp: load_each_step map_of_Map_set simp del: load_each.simps(2) split: list.splits)
  next
    case False
    then show ?thesis using Cons.IH[of m] by (simp add: load_each_step del: load_each.simps(2))
  qed
qed simp

lemma load_each_values:
  "set (Map_values (fst (load_each m xs)))
     \<subseteq> set (Map_values m) \<union> {a \<in> set xs. isValidAccount a = Inr True}"
proof (induction xs arbitrary: m)
  case (Cons a xs)
  show ?case
  proof (cases "isValidAccount a = Inr True")
    case True
    then obtain e where e: "get a ''email'' = Inr (JString e)" using valid_email by blast
    show ?thesis using True e Cons.IH[of "Map_set m (JString e) a"] values_Map_set[of m "JString e" a]
      by (auto simp: load_each_step simp del: load_each.simps(2))
  next
    case False
    then show ?thesis using Cons.IH[of m] by (auto simp add: load_each_step simp del: load_each.simps(2))
  qed
qed simp

lemma load_each_filter:
  "load_each m xs = load_each m (filter (\<lambda>a. isValidAccount a = Inr True) xs)"
  by (induction xs arbitrary: m) (auto simp: load_each_step simp del: load_each.simps(2) split: sum.splits)

lemma load_each_single:
  assumes "filter (\<lambda>a. isValidAccount a = Inr True) xs = [v]"
  shows "\<exists>e. get v ''email'' = Inr (JString e) \<and> fst (load_each [] xs) = [(JString e, v)]"
proof -
  have v: "isValidAccount v = Inr True"
  proof -
    have "v \<in> set (filter (\<lambda>a. isValidAccount a = Inr True) xs)" using assms by simp
    then show ?thesis by simp
  qed
  then obtain e where e: "get v ''email'' = Inr (JString e)" using valid_email by blast
  have "load_each [] xs = load_each [] [v]" using load_each_filter[of "[]" xs] assms by simp
  then show ?thesis using v e by (simp add: Map_set_def Map_has_def)
qed

lemma load_each_keys:
  "\<forall>(k, a) \<in> set m. get a ''email'' = Inr k \<and> (\<exists>e. k = JString e) \<Longrightarrow>
   \<forall>(k, a) \<in> set (fst (load_each m xs)). get a ''email'' = Inr k \<and> (\<exists>e. k = JString e)"
proof (induction xs arbitrary: m)
  case (Cons a xs)
  show ?case
  proof (cases "isValidAccount a = Inr True")
    case True
    then obtain e where e: "get a ''email'' = Inr (JString e)" using valid_email by blast
    have "\<forall>(k, a) \<in> set (Map_set m (JString e) a). get a ''email'' = Inr k \<and> (\<exists>e. k = JString e)"
      using Cons.prems e by (auto simp: Map_set_def split: if_splits)
    from Cons.IH[OF this] show ?thesis using True e
      by (simp add: load_each_step del: load_each.simps(2))
  next
    case False
    then show ?thesis using Cons.IH[OF Cons.prems] by (simp add: load_each_step del: load_each.simps(2))
  qed
qed simp

lemma load_each_distinct:
  "distinct (map fst m) \<Longrightarrow> distinct (map fst (fst (load_each m xs)))"
proof (induction xs arbitrary: m)
  case (Cons a xs)
  show ?case
  proof (cases "isValidAccount a = Inr True")
    case True
    then obtain e where e: "get a ''email'' = Inr (JString e)" using valid_email by blast
    from Cons.IH[OF distinct_Map_set[OF Cons.prems, of "JString e" a]] show ?thesis using True e
      by (simp add: load_each_step del: load_each.simps(2))
  next
    case False
    then show ?thesis using Cons.IH[OF Cons.prems] by (simp add: load_each_step del: load_each.simps(2))
  qed
qed simp

lemma new_AccountStorage_cases:
  "new_AccountStorage P d =
     Inr \<lparr>accounts = (case andThen (readFileSync d AccountsFile) P of
                        Inr (JArray xs) \<Rightarrow> fst (load_each [] xs) | _ \<Rightarrow> []),
          fs = d\<rparr>"
  by (auto simp: new_AccountStorage_def loadAccounts_def existsSync_def readFileSync_def andThen_def
      split: sum.splits jsval.splits option.splits)

subsection \<open>Loading\<close>

text \<open>
  C1, as the code has it. \<^verbatim>\<open>isValidAccount\<close> never throws and answers exactly
  whether \<^verbatim>\<open>email\<close>, \<^verbatim>\<open>oauth2.clientId\<close>, \<^verbatim>\<open>oauth2.clientSecret\<close> and
  \<^verbatim>\<open>oauth2.refreshToken\<close> are strings (the empty string included). Constructing the
  store never throws; every record of the loaded collection passes that check and
  comes from the file's array, so every entry failing it is dropped without an
  error; every entry passing it has its email in the collection; and when exactly one
  entry of the array passes it, the collection is exactly that record.
\<close>

theorem loadAccounts_keeps_typed_records:
  "\<exists>this. new_AccountStorage JSON_parse d = Inr this
     \<and> isValidAccount a = Inr (string_fields a)
     \<and> (\<forall>a \<in> set (getAllAccounts this). string_fields a)
     \<and> (\<forall>xs. andThen (readFileSync d AccountsFile) JSON_parse = Inr (JArray xs) \<longrightarrow>
          set (getAllAccounts this) \<subseteq> set xs
          \<and> (\<forall>a \<in> set xs. string_fields a \<longrightarrow>
                (\<exists>e. get a ''email'' = Inr (JString e) \<and> hasAccount this e))
          \<and> (\<forall>v. filter string_fields xs = [v] \<longrightarrow> getAllAccounts this = [v]))"
proof -
  let ?r = "andThen (readFileSync d AccountsFile) JSON_parse"
  let ?m = "case ?r of Inr (JArray xs) \<Rightarrow> fst (load_each [] xs) | _ \<Rightarrow> []"
  let ?st = "\<lparr>accounts = ?m, fs = d\<rparr>"
  have valid: "(isValidAccount b = Inr True) = string_fields b" for b
    by (simp add: isValidAccount_eq)
  have new: "new_AccountStorage JSON_parse d = Inr ?st" by (rule new_AccountStorage_cases)
  have typed: "\<forall>a \<in> set (getAllAccounts ?st). string_fields a"
  proof (cases ?r)
    case (Inr data)
    show ?thesis
    proof (cases data)
      case (JArray xs)
      then show ?thesis using Inr load_each_values[of "[]" xs]
        by (auto simp: getAllAccounts_def valid Map_values_def)
    qed (simp_all add: Inr getAllAccounts_def Map_values_def)
  qed (simp add: getAllAccounts_def Map_values_def)
  have arr: "set (getAllAccounts ?st) \<subseteq> set xs
          \<and> (\<forall>a \<in> set xs. string_fields a \<longrightarrow>
                (\<exists>e. get a ''email'' = Inr (JString e) \<and> hasAccount ?st e))
          \<and> (\<forall>v. filter string_fields xs = [v] \<longrightarrow> getAllAccounts ?st = [v])"
    if r: "?r = Inr (JArray xs)" for xs
  proof (intro conjI ballI allI impI)
    show "set (getAllAccounts ?st) \<subseteq> set xs"
      using r load_each_values[of "[]" xs] by (auto simp: getAllAccounts_def Map_values_def)
  next
    fix b assume b: "b \<in> set xs" "string_fields b"
    then obtain e where e: "get b ''email'' = Inr (JString e)"
      using valid_email[of b] by (auto simp: valid)
    have "filter (\<lambda>a. isValidAccount a = Inr True \<and> get a ''email'' = Inr (JString e)) xs \<noteq> []"
      using b e by (auto simp: filter_empty_conv valid)
    then have "map_of (fst (load_each [] xs)) (JString e) \<noteq> None"
      by (simp add: load_each_lookup split: list.splits)
    then show "\<exists>e. get b ''email'' = Inr (JString e) \<and> hasAccount ?st e"
      using e r by (auto simp: hasAccount_def Map_has_def)
  next
    fix v assume "filter string_fields xs = [v]"
    then have "filter (\<lambda>a. isValidAccount a = Inr True) xs = [v]" by (simp add: valid)
    from load_each_single[OF this] show "getAllAccounts ?st = [v]"
      using r by (auto simp: getAllAccounts_def Map_values_def)
  qed
  show ?thesis using new typed arr isValidAccount_eq by blast
qed

text \<open>
  The instance of the repository's test: one valid entry, one without \<^verbatim>\<open>oauth2\<close>, one
  without \<^verbatim>\<open>email\<close>.
\<close>

theorem loadAccounts_keeps_typed_records_witness:
  "andThen (readFileSync
              \<lparr>accounts_json = Some ''[{\"email\":\"valid@example.com\",\"oauth2\":{\"clientId\":\"c\",\"clientSecret\":\"s\",\"refreshToken\":\"r\"}},{\"email\":\"invalid\"},{\"invalid\":true}]'',
               credentials_json = None, written = []\<rparr> AccountsFile)
           (JSON_parse_of [(''[{\"email\":\"valid@example.com\",\"oauth2\":{\"clientId\":\"c\",\"clientSecret\":\"s\",\"refreshToken\":\"r\"}},{\"email\":\"invalid\"},{\"invalid\":true}]'',
              JArray [JObject [(''email'', JString ''valid@example.com''),
                     (''oauth2'', JObject [(''clientId'', JString ''c''),
                                           (''clientSecret'', JString ''s''),
                                           (''refreshToken'', JString ''r'')])],
                 JObject [(''email'', JString ''invalid'')],
                 JObject [(''invalid'', JBool True)]])])
     = Inr (JArray [JObject [(''email'', JString ''valid@example.com''),
                     (''oauth2'', JObject [(''clientId'', JString ''c''),
                                           (''clientSecret'', JString ''s''),
                                           (''refreshToken'', JString ''r'')])],
                 JObject [(''email'', JString ''invalid'')],
                 JObject [(''invalid'', JBool True)]])
   \<and> filter string_fields
         [JObject [(''email'', JString ''valid@example.com''),
                     (''oauth2'', JObject [(''clientId'', JString ''c''),
                                           (''clientSecret'', JString ''s''),
                                           (''refreshToken'', JString ''r'')])],
          JObject [(''email'', JString ''invalid'')],
          JObject [(''invalid'', JBool True)]]
     = [JObject [(''email'', JString ''valid@example.com''),
                     (''oauth2'', JObject [(''clientId'', JString ''c''),
                                           (''clientSecret'', JString ''s''),
                                           (''refreshToken'', JString ''r'')])]]
   \<and> new_AccountStorage
         (JSON_parse_of [(''[{\"email\":\"valid@example.com\",\"oauth2\":{\"clientId\":\"c\",\"clientSecret\":\"s\",\"refreshToken\":\"r\"}},{\"email\":\"invalid\"},{\"invalid\":true}]'',
            JArray [JObject [(''email'', JString ''valid@example.com''),
                     (''oauth2'', JObject [(''clientId'', JString ''c''),
                                           (''clientSecret'', JString ''s''),
                                           (''refreshToken'', JString ''r'')])],
                 JObject [(''email'', JString ''invalid'')],
                 JObject [(''invalid'', JBool True)]])])
         \<lparr>accounts_json = Some ''[{\"email\":\"valid@example.com\",\"oauth2\":{\"clientId\":\"c\",\"clientSecret\":\"s\",\"refreshToken\":\"r\"}},{\"email\":\"invalid\"},{\"invalid\":true}]'',
          credentials_json = None, written = []\<rparr>
     = Inr \<lparr>accounts = [(JString ''valid@example.com'',
                          JObject [(''email'', JString ''valid@example.com''),
                     (''oauth2'', JObject [(''clientId'', JString ''c''),
                                           (''clientSecret'', JString ''s''),
                                           (''refreshToken'', JString ''r'')])])],
            fs = \<lparr>accounts_json = Some ''[{\"email\":\"valid@example.com\",\"oauth2\":{\"clientId\":\"c\",\"clientSecret\":\"s\",\"refreshToken\":\"r\"}},{\"email\":\"invalid\"},{\"invalid\":true}]'',
                   credentials_json = None, written = []\<rparr>\<rparr>"
  using loadAccounts_keeps_typed_records [of
      "JSON_parse_of [(''[{\"email\":\"valid@example.com\",\"oauth2\":{\"clientId\":\"c\",\"clientSecret\":\"s\",\"refreshToken\":\"r\"}},{\"email\":\"invalid\"},{\"invalid\":true}]'',
         JArray [JObject [(''email'', JString ''valid@example.com''),
                     (''oauth2'', JObject [(''clientId'', JString ''c''),
                                           (''clientSecret'', JString ''s''),
                                           (''refreshToken'', JString ''r'')])],
                 JObject [(''email'', JString ''invalid'')],
                 JObject [(''invalid'', JBool True)]])]"
      "\<lparr>accounts_json = Some ''[{\"email\":\"valid@example.com\",\"oauth2\":{\"clientId\":\"c\",\"clientSecret\":\"s\",\"refreshToken\":\"r\"}},{\"email\":\"invalid\"},{\"invalid\":true}]'',
        credentials_json = None, written = []\<rparr>"]
  by (simp add: new_AccountStorage_def loadAccounts_def existsSync_def readFileSync_def andThen_def
        JSON_parse_of_def isValidAccount_def Map_set_def Map_has_def string_fields_def
        string_prop_def)

text \<open>
  An entry whose four strings are all empty does not satisfy the Account Record
  invariant as the specification words it (non-empty strings), and is kept.
\<close>

theorem loadAccounts_keeps_empty_strings:
  "new_AccountStorage
      (JSON_parse_of
         [(''[{\"email\":\"\",\"oauth2\":{\"clientId\":\"\",\"clientSecret\":\"\",\"refreshToken\":\"\"}}]'',
           JArray [JObject [(''email'', JString ''''),
                            (''oauth2'', JObject [(''clientId'', JString ''''),
                                                  (''clientSecret'', JString ''''),
                                                  (''refreshToken'', JString '''')])]])])
      \<lparr>accounts_json =
         Some ''[{\"email\":\"\",\"oauth2\":{\"clientId\":\"\",\"clientSecret\":\"\",\"refreshToken\":\"\"}}]'',
       credentials_json = None, written = []\<rparr>
   = Inr \<lparr>accounts =
            [(JString '''',
              JObject [(''email'', JString ''''),
                       (''oauth2'', JObject [(''clientId'', JString ''''),
                                             (''clientSecret'', JString ''''),
                                             (''refreshToken'', JString '''')])])],
          fs = \<lparr>accounts_json =
                  Some ''[{\"email\":\"\",\"oauth2\":{\"clientId\":\"\",\"clientSecret\":\"\",\"refreshToken\":\"\"}}]'',
                credentials_json = None, written = []\<rparr>\<rparr>
   \<and> \<not> Account_Record_invariant
         (JObject [(''email'', JString ''''),
                   (''oauth2'', JObject [(''clientId'', JString ''''),
                                         (''clientSecret'', JString ''''),
                                         (''refreshToken'', JString '''')])])"
  by (simp add: new_AccountStorage_def loadAccounts_def existsSync_def readFileSync_def andThen_def
        JSON_parse_of_def isValidAccount_def Map_set_def Map_has_def
        Account_Record_invariant_def nonempty_string_prop_def)

text \<open>
  C2. Constructing the store (a fresh map, then \<^verbatim>\<open>loadAccounts\<close>) never throws and
  leaves the disk as it was; \<^verbatim>\<open>loadAccounts\<close> does not throw from any state, and the
  loop over the entries itself never throws, whatever the entries are. When the accounts file is absent, cannot be parsed, or its
  root is not an array, the collection is empty. When the root is an array, looking an
  email up gives the last entry of the array that is valid and has this email
  (\<^verbatim>\<open>undefined\<close> when there is none), every record is stored under its own email,
  and no key occurs twice.
\<close>

theorem loadAccounts_never_throws:
  "\<exists>this. new_AccountStorage JSON_parse d = Inr this \<and> fs this = d
     \<and> (\<exists>this'. loadAccounts JSON_parse this0 = Inr this')
     \<and> snd (load_each m ys) = None
     \<and> (case andThen (readFileSync d AccountsFile) JSON_parse of
          Inr (JArray xs) \<Rightarrow>
            (\<forall>e. getAccount this e =
               (case filter (\<lambda>a. isValidAccount a = Inr True \<and> get a ''email'' = Inr (JString e)) xs of
                  [] \<Rightarrow> JUndefined
                | ys \<Rightarrow> last ys))
            \<and> (\<forall>(k, a) \<in> set (accounts this). get a ''email'' = Inr k)
            \<and> distinct (map fst (accounts this))
        | _ \<Rightarrow> accounts this = [])"
proof -
  let ?r = "andThen (readFileSync d AccountsFile) JSON_parse"
  let ?m = "case ?r of Inr (JArray xs) \<Rightarrow> fst (load_each [] xs) | _ \<Rightarrow> []"
  let ?st = "\<lparr>accounts = ?m, fs = d\<rparr>"
  have new: "new_AccountStorage JSON_parse d = Inr ?st" by (rule new_AccountStorage_cases)
  have "case ?r of
          Inr (JArray xs) \<Rightarrow>
            (\<forall>e. getAccount ?st e =
               (case filter (\<lambda>a. isValidAccount a = Inr True \<and> get a ''email'' = Inr (JString e)) xs of
                  [] \<Rightarrow> JUndefined
                | ys \<Rightarrow> last ys))
            \<and> (\<forall>(k, a) \<in> set (accounts ?st). get a ''email'' = Inr k)
            \<and> distinct (map fst (accounts ?st))
        | _ \<Rightarrow> accounts ?st = []"
  proof (cases ?r)
    case (Inr data)
    show ?thesis
    proof (cases data)
      case (JArray xs)
      have 1: "getAccount \<lparr>accounts = fst (load_each [] xs), fs = d\<rparr> e =
               (case filter (\<lambda>a. isValidAccount a = Inr True \<and> get a ''email'' = Inr (JString e)) xs of
                  [] \<Rightarrow> JUndefined
                | ys \<Rightarrow> last ys)" for e
        by (simp add: getAccount_def Map_get_def load_each_lookup split: list.splits)
      have 2: "\<forall>(k, a) \<in> set (fst (load_each [] xs)). get a ''email'' = Inr k"
        using load_each_keys[of "[]" xs] by fastforce
      have 3: "distinct (map fst (fst (load_each [] xs)))"
        using load_each_distinct[of "[]" xs] by simp
      show ?thesis using Inr JArray 1 2 3 by simp
    qed (simp_all add: Inr)
  qed simp
  moreover have "\<exists>this'. loadAccounts JSON_parse this0 = Inr this'"
    by (auto simp: loadAccounts_def split: sum.splits jsval.splits)
  ultimately show ?thesis using new load_each_no_throw[of m ys] by (intro exI[of _ ?st]) simp
qed

text \<open>
  Two valid entries with the same email: the second one is the record kept. A file
  that is not JSON: the collection is empty.
\<close>

theorem loadAccounts_never_throws_witness:
  "new_AccountStorage
      (JSON_parse_of
         [(''[{\"email\":\"a@x.com\",\"oauth2\":{\"clientId\":\"c\",\"clientSecret\":\"s\",\"refreshToken\":\"old\"}},{\"email\":\"a@x.com\",\"oauth2\":{\"clientId\":\"c\",\"clientSecret\":\"s\",\"refreshToken\":\"new\"}}]'',
           JArray [JObject [(''email'', JString ''a@x.com''),
                            (''oauth2'', JObject [(''clientId'', JString ''c''),
                                                  (''clientSecret'', JString ''s''),
                                                  (''refreshToken'', JString ''old'')])],
                   JObject [(''email'', JString ''a@x.com''),
                            (''oauth2'', JObject [(''clientId'', JString ''c''),
                                                  (''clientSecret'', JString ''s''),
                                                  (''refreshToken'', JString ''new'')])]])])
      \<lparr>accounts_json =
         Some ''[{\"email\":\"a@x.com\",\"oauth2\":{\"clientId\":\"c\",\"clientSecret\":\"s\",\"refreshToken\":\"old\"}},{\"email\":\"a@x.com\",\"oauth2\":{\"clientId\":\"c\",\"clientSecret\":\"s\",\"refreshToken\":\"new\"}}]'',
       credentials_json = None, written = []\<rparr>
   = Inr \<lparr>accounts =
            [(JString ''a@x.com'',
              JObject [(''email'', JString ''a@x.com''),
                       (''oauth2'', JObject [(''clientId'', JString ''c''),
                                             (''clientSecret'', JString ''s''),
                                             (''refreshToken'', JString ''new'')])])],
          fs = \<lparr>accounts_json =
                  Some ''[{\"email\":\"a@x.com\",\"oauth2\":{\"clientId\":\"c\",\"clientSecret\":\"s\",\"refreshToken\":\"old\"}},{\"email\":\"a@x.com\",\"oauth2\":{\"clientId\":\"c\",\"clientSecret\":\"s\",\"refreshToken\":\"new\"}}]'',
                credentials_json = None, written = []\<rparr>\<rparr>
   \<and> (\<exists>this. new_AccountStorage (JSON_parse_of [])
                \<lparr>accounts_json = Some ''invalid json'', credentials_json = None, written = []\<rparr>
              = Inr this \<and> accounts this = [])"
  using loadAccounts_never_throws [of "JSON_parse_of []"
          "\<lparr>accounts_json = Some ''invalid json'', credentials_json = None, written = []\<rparr>"]
  by (simp add: new_AccountStorage_def loadAccounts_def existsSync_def readFileSync_def andThen_def
        JSON_parse_of_def isValidAccount_def Map_set_def Map_has_def)

subsection \<open>Adding, deleting, credentials\<close>

text \<open>
  C3. For every account \<open>A\<close> that \<^verbatim>\<open>isValidAccount\<close> accepts (by
  \<open>invariant_accepted\<close>, every record that satisfies the Account Record invariant)
  and every state of the store, \<^verbatim>\<open>addAccount(A)\<close> does not throw and
  \<^verbatim>\<open>getAccount(A.email)\<close> then returns \<open>A\<close> itself, whether or not the email was
  present before; the records under other emails are as they were.
\<close>

theorem addAccount_then_getAccount:
  "isValidAccount A = Inr True \<Longrightarrow>
   \<exists>this' e. addAccount JSON_stringify this A = Inr this'
     \<and> get A ''email'' = Inr (JString e)
     \<and> getAccount this' e = A
     \<and> hasAccount this' e
     \<and> (\<forall>e'. e' \<noteq> e \<longrightarrow> getAccount this' e' = getAccount this e')"
proof -
  assume v: "isValidAccount A = Inr True"
  then obtain e where e: "get A ''email'' = Inr (JString e)" using valid_email by blast
  let ?st = "saveAccounts JSON_stringify (this\<lparr>accounts := Map_set (accounts this) (JString e) A\<rparr>)"
  have 1: "addAccount JSON_stringify this A = Inr ?st"
    by (simp add: addAccount_def andThen_def e)
  have 2: "getAccount ?st e = A"
    by (simp add: getAccount_def saveAccounts_def Map_get_Map_set)
  have 3: "hasAccount ?st e"
    by (simp add: hasAccount_def saveAccounts_def Map_has_Map_set)
  have 4: "\<forall>e'. e' \<noteq> e \<longrightarrow> getAccount ?st e' = getAccount this e'"
    by (simp add: getAccount_def saveAccounts_def Map_get_Map_set)
  show ?thesis using 1 2 3 4 e by blast
qed

text \<open>The account of the repository's test, added to an empty store.\<close>

theorem addAccount_then_getAccount_witness:
  "isValidAccount
     (JObject [(''email'', JString ''test@example.com''),
               (''oauth2'', JObject [(''clientId'', JString ''client-id''),
                                     (''clientSecret'', JString ''client-secret''),
                                     (''refreshToken'', JString ''refresh-token'')])]) = Inr True
   \<and> (\<exists>this'. addAccount (JSON_stringify_of [])
                 \<lparr>accounts = [], fs = \<lparr>accounts_json = None, credentials_json = None, written = []\<rparr>\<rparr>
                 (JObject [(''email'', JString ''test@example.com''),
                           (''oauth2'', JObject [(''clientId'', JString ''client-id''),
                                                 (''clientSecret'', JString ''client-secret''),
                                                 (''refreshToken'', JString ''refresh-token'')])])
               = Inr this'
          \<and> getAccount this' ''test@example.com''
              = JObject [(''email'', JString ''test@example.com''),
                         (''oauth2'', JObject [(''clientId'', JString ''client-id''),
                                               (''clientSecret'', JString ''client-secret''),
                                               (''refreshToken'', JString ''refresh-token'')])])"
  using addAccount_then_getAccount [of
      "JObject [(''email'', JString ''test@example.com''),
               (''oauth2'', JObject [(''clientId'', JString ''client-id''),
                                     (''clientSecret'', JString ''client-secret''),
                                     (''refreshToken'', JString ''refresh-token'')])]"
      "JSON_stringify_of []"
      "\<lparr>accounts = [], fs = \<lparr>accounts_json = None, credentials_json = None, written = []\<rparr>\<rparr>"]
  by (auto simp: isValidAccount_def andThen_def)

text \<open>
  C4. \<^verbatim>\<open>deleteAccount(email)\<close> returns whether a record with this email was
  present. When it was, the accounts file is written once, with the remaining records;
  when it was not, nothing changes at all: no write, no error. In both cases the records
  under other emails are as they were (and in the same order), the email itself is
  absent afterwards, and the credentials file is untouched.
\<close>

theorem deleteAccount_result:
  "deleteAccount JSON_stringify this email = (this', deleted) \<Longrightarrow>
     deleted = hasAccount this email
     \<and> (if deleted
         then fs this' = writeFileSync (fs this) AccountsFile
                           (JSON_stringify (JArray (getAllAccounts this')))
         else this' = this)
     \<and> written (fs this')
         = written (fs this)
           @ (if deleted
              then [(AccountsFile, JSON_stringify (JArray (getAllAccounts this')))] else [])
     \<and> accounts this' = filter (\<lambda>(k, a). k \<noteq> JString email) (accounts this)
     \<and> getAccount this' email = JUndefined
     \<and> (\<forall>e'. e' \<noteq> email \<longrightarrow> getAccount this' e' = getAccount this e')
     \<and> credentials_json (fs this') = credentials_json (fs this)"
proof -
  assume d: "deleteAccount JSON_stringify this email = (this', deleted)"
  have del: "deleted = hasAccount this email"
    using d by (auto simp: deleteAccount_def hasAccount_def Let_def split: if_splits)
  have acc: "accounts this' = Map_delete (accounts this) (JString email)"
    using d by (auto simp: deleteAccount_def saveAccounts_def Let_def split: if_splits)
  have "this' = this" if "\<not> deleted"
    using d that del Map_delete_absent[of "accounts this" "JString email"]
    by (auto simp: deleteAccount_def hasAccount_def Let_def split: if_splits)
  moreover have "fs this' = writeFileSync (fs this) AccountsFile
                           (JSON_stringify (JArray (getAllAccounts this')))" if deleted
    using d that by (auto simp: deleteAccount_def saveAccounts_def getAllAccounts_def Let_def split: if_splits)
  moreover have "getAccount this' email = JUndefined"
    by (simp add: getAccount_def acc Map_get_def map_of_Map_delete)
  moreover have "\<forall>e'. e' \<noteq> email \<longrightarrow> getAccount this' e' = getAccount this e'"
    by (simp add: getAccount_def acc Map_get_def map_of_Map_delete)
  moreover have "credentials_json (fs this') = credentials_json (fs this)"
    using d by (auto simp: deleteAccount_def saveAccounts_def Let_def split: if_splits)
  moreover have "written (fs this')
         = written (fs this)
           @ (if deleted
              then [(AccountsFile, JSON_stringify (JArray (getAllAccounts this')))] else [])"
    using d del Map_delete_absent[of "accounts this" "JString email"]
    by (auto simp: deleteAccount_def saveAccounts_def getAllAccounts_def hasAccount_def Let_def
        split: if_splits)
  ultimately show ?thesis using del acc by (simp add: Map_delete_def)
qed

text \<open>Deleting the only account, and deleting from an empty store.\<close>

theorem deleteAccount_result_witness:
  "deleteAccount (JSON_stringify_of [(JArray [], ''[]'')])
     \<lparr>accounts = [(JString ''test@example.com'',
                    JObject [(''email'', JString ''test@example.com''),
                             (''oauth2'', JObject [(''clientId'', JString ''c''),
                                                   (''clientSecret'', JString ''s''),
                                                   (''refreshToken'', JString ''r'')])])],
      fs = \<lparr>accounts_json =
               Some ''[{\"email\":\"test@example.com\",\"oauth2\":{\"clientId\":\"c\",\"clientSecret\":\"s\",\"refreshToken\":\"r\"}}]'',
             credentials_json = None, written = []\<rparr>\<rparr>
     ''test@example.com''
   = (\<lparr>accounts = [],
       fs = \<lparr>accounts_json = Some ''[]'', credentials_json = None,
              written = [(AccountsFile, ''[]'')]\<rparr>\<rparr>, True)
   \<and> deleteAccount (JSON_stringify_of [(JArray [], ''[]'')])
     \<lparr>accounts = [], fs = \<lparr>accounts_json = None, credentials_json = None, written = []\<rparr>\<rparr>
     ''nonexistent@example.com''
   = (\<lparr>accounts = [], fs = \<lparr>accounts_json = None, credentials_json = None, written = []\<rparr>\<rparr>,
      False)"
  using deleteAccount_result [of "JSON_stringify_of [(JArray [], ''[]'')]"
     "\<lparr>accounts = [(JString ''test@example.com'',
                    JObject [(''email'', JString ''test@example.com''),
                             (''oauth2'', JObject [(''clientId'', JString ''c''),
                                                   (''clientSecret'', JString ''s''),
                                                   (''refreshToken'', JString ''r'')])])],
      fs = \<lparr>accounts_json =
               Some ''[{\"email\":\"test@example.com\",\"oauth2\":{\"clientId\":\"c\",\"clientSecret\":\"s\",\"refreshToken\":\"r\"}}]'',
             credentials_json = None, written = []\<rparr>\<rparr>"
     "''test@example.com''"
     "\<lparr>accounts = [],
       fs = \<lparr>accounts_json = Some ''[]'', credentials_json = None,
              written = [(AccountsFile, ''[]'')]\<rparr>\<rparr>" True]
  by (simp add: deleteAccount_def saveAccounts_def Map_has_def Map_delete_def Map_values_def
        JSON_stringify_of_def Let_def)

text \<open>
  C5. \<^verbatim>\<open>getCredentials\<close> never throws. It returns \<^verbatim>\<open>null\<close> when the credentials file
  is absent, when its text does not parse, and when \<^verbatim>\<open>clientId\<close> or
  \<^verbatim>\<open>clientSecret\<close> is missing or not a string (a parsed \<^verbatim>\<open>null\<close> included: the
  property read throws and is caught); otherwise it returns the parsed object.
\<close>

theorem getCredentials_never_throws:
  "getCredentials JSON_parse this =
     Inr (case content (fs this) CredentialsFile of
            None \<Rightarrow> JNull
          | Some t \<Rightarrow>
              (case JSON_parse t of
                 Inl e \<Rightarrow> JNull
               | Inr data \<Rightarrow>
                   if string_prop data ''clientId'' \<and> string_prop data ''clientSecret''
                   then data else JNull))"
proof (cases "content (fs this) CredentialsFile")
  case None
  then show ?thesis by (simp add: getCredentials_def existsSync_def)
next
  case (Some t)
  show ?thesis
  proof (cases "JSON_parse t")
    case (Inl e)
    then show ?thesis using Some
      by (simp add: getCredentials_def existsSync_def readFileSync_def andThen_def)
  next
    case (Inr data)
    show ?thesis
    proof (cases "get data ''clientId''")
      case (Inl e)
      then have "get data ''clientSecret'' = Inl e'" if "get data ''clientId'' = Inl e'" for e'
        using that by (cases data) simp_all
      then show ?thesis using Some Inr Inl
        by (simp add: getCredentials_def existsSync_def readFileSync_def andThen_def string_prop_def)
    next
      case cid: (Inr clientId)
      then obtain clientSecret where cs: "get data ''clientSecret'' = Inr clientSecret"
        by (cases data) simp_all
      show ?thesis using Some Inr cid cs
        by (cases clientId; cases clientSecret)
           (simp_all add: getCredentials_def existsSync_def readFileSync_def andThen_def string_prop_def)
    qed
  qed
qed

text \<open>
  A file with \<^verbatim>\<open>clientId\<close> only, a file that is not JSON, the text \<^verbatim>\<open>null\<close>, no
  file, and a file with both fields.
\<close>

theorem getCredentials_never_throws_witness:
  "getCredentials (JSON_parse_of [(''{\"clientId\":\"only-id\"}'',
                                    JObject [(''clientId'', JString ''only-id'')])])
     \<lparr>accounts = [],
      fs = \<lparr>accounts_json = None, credentials_json = Some ''{\"clientId\":\"only-id\"}'',
             written = []\<rparr>\<rparr> = Inr JNull
   \<and> getCredentials (JSON_parse_of [])
     \<lparr>accounts = [],
      fs = \<lparr>accounts_json = None, credentials_json = Some ''invalid json'', written = []\<rparr>\<rparr>
     = Inr JNull
   \<and> getCredentials (JSON_parse_of [(''null'', JNull)])
     \<lparr>accounts = [],
      fs = \<lparr>accounts_json = None, credentials_json = Some ''null'', written = []\<rparr>\<rparr>
     = Inr JNull
   \<and> getCredentials (JSON_parse_of [])
     \<lparr>accounts = [],
      fs = \<lparr>accounts_json = None, credentials_json = None, written = []\<rparr>\<rparr> = Inr JNull
   \<and> getCredentials
     (JSON_parse_of [(''{\"clientId\":\"my-client-id\",\"clientSecret\":\"my-client-secret\"}'',
        JObject [(''clientId'', JString ''my-client-id''),
                 (''clientSecret'', JString ''my-client-secret'')])])
     \<lparr>accounts = [],
      fs = \<lparr>accounts_json = None,
             credentials_json = Some ''{\"clientId\":\"my-client-id\",\"clientSecret\":\"my-client-secret\"}'',
             written = []\<rparr>\<rparr>
     = Inr (JObject [(''clientId'', JString ''my-client-id''),
                     (''clientSecret'', JString ''my-client-secret'')])"
  using getCredentials_never_throws [of
     "JSON_parse_of [(''{\"clientId\":\"only-id\"}'', JObject [(''clientId'', JString ''only-id'')])]"
     "\<lparr>accounts = [],
      fs = \<lparr>accounts_json = None, credentials_json = Some ''{\"clientId\":\"only-id\"}'',
             written = []\<rparr>\<rparr>"]
  by (simp add: getCredentials_def existsSync_def readFileSync_def andThen_def JSON_parse_of_def)

text \<open>
  C10. For all strings \<open>c\<close> and \<open>s\<close> and whatever the credentials file held
  before, \<^verbatim>\<open>setCredentials(c, s)\<close> followed by \<^verbatim>\<open>getCredentials()\<close> returns
  \<^verbatim>\<open>{clientId: c, clientSecret: s}\<close>, given that the runtime's \<^verbatim>\<open>JSON.parse\<close> reads
  back what its \<^verbatim>\<open>JSON.stringify\<close> wrote for this object.
\<close>

theorem setCredentials_then_getCredentials:
  "JSON_parse (JSON_stringify (JObject [(''clientId'', JString c), (''clientSecret'', JString s)]))
     = Inr (JObject [(''clientId'', JString c), (''clientSecret'', JString s)]) \<Longrightarrow>
   getCredentials JSON_parse (setCredentials JSON_stringify this c s)
     = Inr (JObject [(''clientId'', JString c), (''clientSecret'', JString s)])"
  by (simp add: getCredentials_def setCredentials_def existsSync_def readFileSync_def andThen_def)

text \<open>The credentials of the repository's test, over a file that held no JSON.\<close>

theorem setCredentials_then_getCredentials_witness:
  "JSON_parse_of [(''{\"clientId\":\"my-client-id\",\"clientSecret\":\"my-client-secret\"}'',
        JObject [(''clientId'', JString ''my-client-id''),
                 (''clientSecret'', JString ''my-client-secret'')])]
     (JSON_stringify_of
        [(JObject [(''clientId'', JString ''my-client-id''),
                   (''clientSecret'', JString ''my-client-secret'')],
          ''{\"clientId\":\"my-client-id\",\"clientSecret\":\"my-client-secret\"}'')]
        (JObject [(''clientId'', JString ''my-client-id''),
                  (''clientSecret'', JString ''my-client-secret'')]))
     = Inr (JObject [(''clientId'', JString ''my-client-id''),
                     (''clientSecret'', JString ''my-client-secret'')])
   \<and> getCredentials
       (JSON_parse_of [(''{\"clientId\":\"my-client-id\",\"clientSecret\":\"my-client-secret\"}'',
          JObject [(''clientId'', JString ''my-client-id''),
                   (''clientSecret'', JString ''my-client-secret'')])])
       (setCredentials
          (JSON_stringify_of
             [(JObject [(''clientId'', JString ''my-client-id''),
                        (''clientSecret'', JString ''my-client-secret'')],
               ''{\"clientId\":\"my-client-id\",\"clientSecret\":\"my-client-secret\"}'')])
          \<lparr>accounts = [],
           fs = \<lparr>accounts_json = None, credentials_json = Some ''invalid json'',
                  written = []\<rparr>\<rparr>
          ''my-client-id'' ''my-client-secret'')
     = Inr (JObject [(''clientId'', JString ''my-client-id''),
                     (''clientSecret'', JString ''my-client-secret'')])"
  using setCredentials_then_getCredentials [of
     "JSON_parse_of [(''{\"clientId\":\"my-client-id\",\"clientSecret\":\"my-client-secret\"}'',
        JObject [(''clientId'', JString ''my-client-id''),
                 (''clientSecret'', JString ''my-client-secret'')])]"
     "JSON_stringify_of
        [(JObject [(''clientId'', JString ''my-client-id''),
                   (''clientSecret'', JString ''my-client-secret'')],
          ''{\"clientId\":\"my-client-id\",\"clientSecret\":\"my-client-secret\"}'')]"
     "''my-client-id''" "''my-client-secret''"
     "\<lparr>accounts = [],
       fs = \<lparr>accounts_json = None, credentials_json = Some ''invalid json'',
              written = []\<rparr>\<rparr>"]
  by (simp add: JSON_parse_of_def JSON_stringify_of_def)

section \<open>Properties of the authorization flow\<close>

subsection \<open>The fallback scan\<close>

lemma str_includes_iff: "str_includes s sub \<longleftrightarrow> (\<exists>p r. s = p @ sub @ r)"
proof (induction s)
  case Nil
  then show ?case by auto
next
  case (Cons c cs)
  show ?case
  proof
    assume "str_includes (c # cs) sub"
    then consider "prefix sub (c # cs)" | "str_includes cs sub" by auto
    then show "\<exists>p r. c # cs = p @ sub @ r"
    proof cases
      case 1
      then obtain r where "c # cs = sub @ r" by (auto simp: prefix_def)
      then have "c # cs = [] @ sub @ r" by simp
      then show ?thesis by blast
    next
      case 2
      then obtain p r where "cs = p @ sub @ r" using Cons.IH by blast
      then have "c # cs = (c # p) @ sub @ r" by simp
      then show ?thesis by blast
    qed
  next
    assume "\<exists>p r. c # cs = p @ sub @ r"
    then obtain p r where pr: "c # cs = p @ sub @ r" by blast
    show "str_includes (c # cs) sub"
    proof (cases p)
      case Nil
      then have "prefix sub (c # cs)" using pr by (simp add: prefix_def)
      then show ?thesis by simp
    next
      case (Cons a p')
      then have "cs = p' @ sub @ r" using pr by simp
      then show ?thesis using Cons.IH by auto
    qed
  qed
qed

lemma match_code_None_iff:
  "match_code s = None \<longleftrightarrow> \<not> (\<exists>p c r. s = p @ ''code='' @ c # r \<and> c \<noteq> CHR ''&'')"
proof (induction s)
  case Nil
  then show ?case by simp
next
  case (Cons a s)
  have cap: "capture_code t = None \<longleftrightarrow> \<not> (\<exists>c r. t = ''code='' @ c # r \<and> c \<noteq> CHR ''&'')" for t
  proof -
    have "takeWhile (\<lambda>c. c \<noteq> CHR ''&'') r \<noteq> [] \<longleftrightarrow> (\<exists>c r'. r = c # r' \<and> c \<noteq> CHR ''&'')" for r
      by (cases r) auto
    then show ?thesis unfolding capture_code_def prefix_def by auto
  qed
  show ?case
  proof
    assume m: "match_code (a # s) = None"
    then have c0: "capture_code (a # s) = None" and ms: "match_code s = None"
      by (auto split: option.splits)
    show "\<not> (\<exists>p c r. a # s = p @ ''code='' @ c # r \<and> c \<noteq> CHR ''&'')"
    proof
      assume "\<exists>p c r. a # s = p @ ''code='' @ c # r \<and> c \<noteq> CHR ''&''"
      then obtain p c r where pr: "a # s = p @ ''code='' @ c # r" "c \<noteq> CHR ''&''" by blast
      show False
      proof (cases p)
        case Nil
        then show ?thesis using pr c0 cap[of "a # s"] by auto
      next
        case (Cons b p')
        then have "s = p' @ ''code='' @ c # r" using pr by simp
        then show ?thesis using ms Cons.IH pr(2) by blast
      qed
    qed
  next
    assume n: "\<not> (\<exists>p c r. a # s = p @ ''code='' @ c # r \<and> c \<noteq> CHR ''&'')"
    have "capture_code (a # s) = None"
    proof -
      have "\<not> (\<exists>c r. a # s = ''code='' @ c # r \<and> c \<noteq> CHR ''&'')"
      proof
        assume "\<exists>c r. a # s = ''code='' @ c # r \<and> c \<noteq> CHR ''&''"
        then obtain c r where "a # s = [] @ ''code='' @ c # r \<and> c \<noteq> CHR ''&''" by auto
        then show False using n by blast
      qed
      then show ?thesis using cap by blast
    qed
    moreover have "match_code s = None"
    proof -
      have "\<not> (\<exists>p c r. s = p @ ''code='' @ c # r \<and> c \<noteq> CHR ''&'')"
      proof
        assume "\<exists>p c r. s = p @ ''code='' @ c # r \<and> c \<noteq> CHR ''&''"
        then obtain p c r where "s = p @ ''code='' @ c # r" "c \<noteq> CHR ''&''" by blast
        then have "a # s = (a # p) @ ''code='' @ c # r \<and> c \<noteq> CHR ''&''" by simp
        then show False using n by blast
      qed
      then show ?thesis using Cons.IH by blast
    qed
    ultimately show "match_code (a # s) = None" by simp
  qed
qed

lemma match_code_needs_code: "\<not> str_includes s ''code='' \<Longrightarrow> match_code s = None"
proof -
  assume n: "\<not> str_includes s ''code=''"
  have "\<not> (\<exists>p c r. s = p @ ''code='' @ c # r \<and> c \<noteq> CHR ''&'')"
  proof
    assume "\<exists>p c r. s = p @ ''code='' @ c # r \<and> c \<noteq> CHR ''&''"
    then obtain p c r where "s = p @ ''code='' @ (c # r)" by blast
    then show False using n str_includes_iff by blast
  qed
  then show ?thesis by (simp add: match_code_None_iff)
qed

lemma extractCodeFromUrl_primary:
  "URL_param url ''code'' = Inr (Some c) \<Longrightarrow> c \<noteq> [] \<Longrightarrow>
   extractCodeFromUrl URL_param decodeURIComponent url = Inr c"
  by (simp add: extractCodeFromUrl_def andThen_def)

lemma extractCodeFromUrl_fallback:
  assumes "\<forall>c. URL_param url ''code'' = Inr (Some c) \<longrightarrow> c = []"
  shows "extractCodeFromUrl URL_param decodeURIComponent url =
           (case match_code url of
              Some g \<Rightarrow> decodeURIComponent g
            | None \<Rightarrow> Inl (Error ''Invalid redirect URL''))"
proof (cases "str_includes url ''code=''")
  case True
  then show ?thesis using assms
    by (auto simp: extractCodeFromUrl_def andThen_def split: sum.splits option.splits)
next
  case False
  then have "match_code url = None" by (rule match_code_needs_code)
  then show ?thesis using assms False
    by (auto simp: extractCodeFromUrl_def andThen_def split: sum.splits option.splits)
qed

text \<open>
  C6, as the code has it. With the URL parser yielding the \<^verbatim>\<open>code\<close> parameter of the
  first redirect string, \<^verbatim>\<open>extractCodeFromUrl\<close> returns \<^verbatim>\<open>auth_code_123\<close>; on
  \<^verbatim>\<open>not-a-url?code=fallback_code\<close>, which the URL parser rejects, the fallback scan
  captures \<^verbatim>\<open>fallback_code\<close> and returns what percent-decoding gives; on
  \<^verbatim>\<open>http://localhost:3000?error=access_denied\<close> (no \<^verbatim>\<open>code\<close> parameter) and on
  \<^verbatim>\<open>no-code-here\<close> (no URL) it throws \<^verbatim>\<open>Invalid redirect URL\<close>. In general: a
  non-empty \<^verbatim>\<open>code\<close> parameter of a parsed URL is returned as it is; otherwise the
  result is that of percent-decoding the captured run when there is one, and
  \<^verbatim>\<open>Invalid redirect URL\<close> is thrown when there is none, that is, when no
  \<^verbatim>\<open>code=\<close> is followed by a character other than \<^verbatim>\<open>&\<close>, which covers every
  string without a \<^verbatim>\<open>code=\<close> substring.
\<close>

theorem extractCodeFromUrl_cases:
  "(URL_param ''http://localhost:3000?code=auth_code_123&scope=tasks'' ''code''
       = Inr (Some ''auth_code_123'') \<longrightarrow>
     extractCodeFromUrl URL_param decodeURIComponent
       ''http://localhost:3000?code=auth_code_123&scope=tasks'' = Inr ''auth_code_123'')
   \<and> (URL_param ''not-a-url?code=fallback_code'' ''code'' = Inl e1
        \<and> decodeURIComponent ''fallback_code'' = Inr ''fallback_code'' \<longrightarrow>
       extractCodeFromUrl URL_param decodeURIComponent ''not-a-url?code=fallback_code''
         = Inr ''fallback_code'')
   \<and> (URL_param ''http://localhost:3000?error=access_denied'' ''code'' = Inr None \<longrightarrow>
       extractCodeFromUrl URL_param decodeURIComponent ''http://localhost:3000?error=access_denied''
         = Inl (Error ''Invalid redirect URL''))
   \<and> (URL_param ''no-code-here'' ''code'' = Inl e2 \<longrightarrow>
       extractCodeFromUrl URL_param decodeURIComponent ''no-code-here''
         = Inl (Error ''Invalid redirect URL''))
   \<and> (\<forall>c. URL_param url ''code'' = Inr (Some c) \<and> c \<noteq> [] \<longrightarrow>
          extractCodeFromUrl URL_param decodeURIComponent url = Inr c)
   \<and> ((\<forall>c. URL_param url ''code'' = Inr (Some c) \<longrightarrow> c = []) \<longrightarrow>
        extractCodeFromUrl URL_param decodeURIComponent url
          = (case match_code url of
               Some g \<Rightarrow> decodeURIComponent g
             | None \<Rightarrow> Inl (Error ''Invalid redirect URL''))
        \<and> (match_code url = None
             \<longleftrightarrow> \<not> (\<exists>p c r. url = p @ ''code='' @ c # r \<and> c \<noteq> CHR ''&''))
        \<and> (\<not> str_includes url ''code='' \<longrightarrow>
             extractCodeFromUrl URL_param decodeURIComponent url
               = Inl (Error ''Invalid redirect URL'')))"
proof (intro conjI impI allI)
  assume "URL_param ''http://localhost:3000?code=auth_code_123&scope=tasks'' ''code''
            = Inr (Some ''auth_code_123'')"
  then show "extractCodeFromUrl URL_param decodeURIComponent
       ''http://localhost:3000?code=auth_code_123&scope=tasks'' = Inr ''auth_code_123''"
    by (simp add: extractCodeFromUrl_primary)
next
  assume "URL_param ''not-a-url?code=fallback_code'' ''code'' = Inl e1
        \<and> decodeURIComponent ''fallback_code'' = Inr ''fallback_code''"
  then show "extractCodeFromUrl URL_param decodeURIComponent ''not-a-url?code=fallback_code''
         = Inr ''fallback_code''"
    using extractCodeFromUrl_fallback[of URL_param "''not-a-url?code=fallback_code''" decodeURIComponent]
    by (simp add: capture_code_def)
next
  assume "URL_param ''http://localhost:3000?error=access_denied'' ''code'' = Inr None"
  then show "extractCodeFromUrl URL_param decodeURIComponent ''http://localhost:3000?error=access_denied''
         = Inl (Error ''Invalid redirect URL'')"
    using extractCodeFromUrl_fallback[of URL_param "''http://localhost:3000?error=access_denied''" decodeURIComponent]
    by (simp add: capture_code_def)
next
  assume "URL_param ''no-code-here'' ''code'' = Inl e2"
  then show "extractCodeFromUrl URL_param decodeURIComponent ''no-code-here''
         = Inl (Error ''Invalid redirect URL'')"
    using extractCodeFromUrl_fallback[of URL_param "''no-code-here''" decodeURIComponent]
    by (simp add: capture_code_def)
next
  fix c assume "URL_param url ''code'' = Inr (Some c) \<and> c \<noteq> []"
  then show "extractCodeFromUrl URL_param decodeURIComponent url = Inr c"
    by (simp add: extractCodeFromUrl_primary)
next
  assume a: "\<forall>c. URL_param url ''code'' = Inr (Some c) \<longrightarrow> c = []"
  then show "extractCodeFromUrl URL_param decodeURIComponent url
          = (case match_code url of
               Some g \<Rightarrow> decodeURIComponent g
             | None \<Rightarrow> Inl (Error ''Invalid redirect URL''))"
    by (rule extractCodeFromUrl_fallback)
  show "match_code url = None
             \<longleftrightarrow> \<not> (\<exists>p c r. url = p @ ''code='' @ c # r \<and> c \<noteq> CHR ''&'')"
    by (rule match_code_None_iff)
  assume "\<not> str_includes url ''code=''"
  then show "extractCodeFromUrl URL_param decodeURIComponent url
               = Inl (Error ''Invalid redirect URL'')"
    using a extractCodeFromUrl_fallback[of URL_param url decodeURIComponent]
      match_code_needs_code[of url]
    by simp
qed

text \<open>The four redirect strings of the repository's tests.\<close>

theorem extractCodeFromUrl_cases_witness:
  "extractCodeFromUrl
     (URL_param_of
        [((''http://localhost:3000?code=auth_code_123&scope=tasks'', ''code''),
          Inr (Some ''auth_code_123'')),
         ((''http://localhost:3000?error=access_denied'', ''code''), Inr None),
         ((''not-a-url?code=fallback_code'', ''code''), Inl TypeError),
         ((''no-code-here'', ''code''), Inl TypeError)])
     (decodeURIComponent_of [(''fallback_code'', ''fallback_code'')])
     ''http://localhost:3000?code=auth_code_123&scope=tasks'' = Inr ''auth_code_123''
   \<and> extractCodeFromUrl
     (URL_param_of
        [((''http://localhost:3000?code=auth_code_123&scope=tasks'', ''code''),
          Inr (Some ''auth_code_123'')),
         ((''http://localhost:3000?error=access_denied'', ''code''), Inr None),
         ((''not-a-url?code=fallback_code'', ''code''), Inl TypeError),
         ((''no-code-here'', ''code''), Inl TypeError)])
     (decodeURIComponent_of [(''fallback_code'', ''fallback_code'')])
     ''not-a-url?code=fallback_code'' = Inr ''fallback_code''
   \<and> extractCodeFromUrl
     (URL_param_of
        [((''http://localhost:3000?code=auth_code_123&scope=tasks'', ''code''),
          Inr (Some ''auth_code_123'')),
         ((''http://localhost:3000?error=access_denied'', ''code''), Inr None),
         ((''not-a-url?code=fallback_code'', ''code''), Inl TypeError),
         ((''no-code-here'', ''code''), Inl TypeError)])
     (decodeURIComponent_of [(''fallback_code'', ''fallback_code'')])
     ''http://localhost:3000?error=access_denied'' = Inl (Error ''Invalid redirect URL'')
   \<and> extractCodeFromUrl
     (URL_param_of
        [((''http://localhost:3000?code=auth_code_123&scope=tasks'', ''code''),
          Inr (Some ''auth_code_123'')),
         ((''http://localhost:3000?error=access_denied'', ''code''), Inr None),
         ((''not-a-url?code=fallback_code'', ''code''), Inl TypeError),
         ((''no-code-here'', ''code''), Inl TypeError)])
     (decodeURIComponent_of [(''fallback_code'', ''fallback_code'')])
     ''no-code-here'' = Inl (Error ''Invalid redirect URL'')"
  using extractCodeFromUrl_cases [of
     "URL_param_of
        [((''http://localhost:3000?code=auth_code_123&scope=tasks'', ''code''),
          Inr (Some ''auth_code_123'')),
         ((''http://localhost:3000?error=access_denied'', ''code''), Inr None),
         ((''not-a-url?code=fallback_code'', ''code''), Inl TypeError),
         ((''no-code-here'', ''code''), Inl TypeError)]"
     "decodeURIComponent_of [(''fallback_code'', ''fallback_code'')]"
     TypeError TypeError "''no-code-here''"]
  by (simp add: URL_param_of_def decodeURIComponent_of_def)

text \<open>
  A redirect string that contains \<^verbatim>\<open>code=\<close> and still fails: the parameter is
  empty.
\<close>

theorem extractCodeFromUrl_fails_with_code_substring:
  "str_includes ''not-a-url?code=&state=xyz'' ''code=''
   \<and> extractCodeFromUrl
         (URL_param_of [((''not-a-url?code=&state=xyz'', ''code''), Inl TypeError)])
         (decodeURIComponent_of [])
         ''not-a-url?code=&state=xyz'' = Inl (Error ''Invalid redirect URL'')"
  by (simp add: extractCodeFromUrl_def andThen_def URL_param_of_def capture_code_def)

subsection \<open>The code exchange\<close>

text \<open>
  C7. For every response of the token endpoint: when it carries no refresh token
  (\<^verbatim>\<open>undefined\<close>, \<^verbatim>\<open>null\<close>, or anything falsy), \<^verbatim>\<open>exchangeCode\<close> fails with an
  error whose message contains \<^verbatim>\<open>No refresh token received\<close>; when it carries a
  refresh token and an access token, both are returned unchanged.
\<close>

theorem exchangeCode_result:
  "getToken code = Inr tokens \<Longrightarrow>
     (refresh_token tokens = JUndefined \<or> refresh_token tokens = JNull
        \<or> \<not> truthy (refresh_token tokens) \<longrightarrow>
        (\<exists>msg. exchangeCode getToken code = Inl (Error msg)
               \<and> str_includes msg ''No refresh token received''))
   \<and> (\<forall>r a. refresh_token tokens = JString r \<and> r \<noteq> [] \<and> access_token tokens = JString a \<longrightarrow>
        exchangeCode getToken code = Inr \<lparr>refreshToken = JString r, accessToken = JString a\<rparr>)"
  by (auto simp: exchangeCode_def andThen_def nullish_or_def)

text \<open>The two mocked responses of the repository's tests.\<close>

theorem exchangeCode_result_witness:
  "exchangeCode
     (getToken_of [(''test-code'', Inr \<lparr>refresh_token = JUndefined, access_token = JString ''access''\<rparr>)])
     ''test-code''
     = Inl (Error ''No refresh token received. Try revoking app access and re-authorizing.'')
   \<and> exchangeCode
     (getToken_of [(''test-code'', Inr \<lparr>refresh_token = JString ''refresh-token'',
                                         access_token = JString ''access-token''\<rparr>)])
     ''test-code''
     = Inr \<lparr>refreshToken = JString ''refresh-token'', accessToken = JString ''access-token''\<rparr>"
  using exchangeCode_result [of
     "getToken_of [(''test-code'', Inr \<lparr>refresh_token = JUndefined, access_token = JString ''access''\<rparr>)]"
     "''test-code''"
     "\<lparr>refresh_token = JUndefined, access_token = JString ''access''\<rparr>"]
    exchangeCode_result [of
     "getToken_of [(''test-code'', Inr \<lparr>refresh_token = JString ''refresh-token'',
                                         access_token = JString ''access-token''\<rparr>)]"
     "''test-code''"
     "\<lparr>refresh_token = JString ''refresh-token'', access_token = JString ''access-token''\<rparr>"]
  by (simp add: getToken_of_def exchangeCode_def andThen_def)

subsection \<open>The local listener\<close>

lemma settle_fields [simp]:
  "server (settle r st) = server st" "awaited (settle r st) = awaited st"
  "exchanged (settle r st) = exchanged st" "denied (settle r st) = denied st"
  "responses (settle r st) = responses st" "unhandled (settle r st) = unhandled st"
  by (simp_all add: settle_def)













section \<open>Properties of the command line\<close>

text \<open>
  C9. \<^verbatim>\<open>accounts add <email>\<close> with an email the store already has prints
  \<^verbatim>\<open>Account '<email>' already exists\<close> and exits with status 1; the authorization
  flow is not started (the result does not depend on it, and its counter stands), and
  the store, map and files, is as it was.
\<close>

theorem accounts_add_existing_email:
  "filter (\<lambda>a. a \<noteq> ''--manual'') (drop 1 args) = email # rest \<Longrightarrow> email \<noteq> [] \<Longrightarrow>
   hasAccount (storage w) email \<Longrightarrow>
     handleAccounts_add JSON_parse JSON_stringify authorize w args
       = (w\<lparr>console := console w @ [''Error: Account '' @ quoted email @ '' already exists'']\<rparr>,
          Exited 1)
     \<and> storage (fst (handleAccounts_add JSON_parse JSON_stringify authorize w args)) = storage w
     \<and> authorizations (fst (handleAccounts_add JSON_parse JSON_stringify authorize w args))
         = authorizations w"
  by (simp add: handleAccounts_add_def error_exit_def Let_def)

text \<open>An existing account, and a flow that would have returned a new refresh token.\<close>

theorem accounts_add_existing_email_witness:
  "handleAccounts_add (JSON_parse_of []) (JSON_stringify_of [])
      (\<lambda>manual. Inr \<lparr>refreshToken = JString ''new'', accessToken = JUndefined\<rparr>)
      \<lparr>storage =
         \<lparr>accounts = [(JString ''a@x.com'',
                        JObject [(''email'', JString ''a@x.com''),
                                 (''oauth2'', JObject [(''clientId'', JString ''c''),
                                                       (''clientSecret'', JString ''s''),
                                                       (''refreshToken'', JString ''r'')])])],
          fs = \<lparr>accounts_json = None, credentials_json = None, written = []\<rparr>\<rparr>,
       console = [], authorizations = 0\<rparr>
      [''add'', ''a@x.com'']
   = (\<lparr>storage =
         \<lparr>accounts = [(JString ''a@x.com'',
                        JObject [(''email'', JString ''a@x.com''),
                                 (''oauth2'', JObject [(''clientId'', JString ''c''),
                                                       (''clientSecret'', JString ''s''),
                                                       (''refreshToken'', JString ''r'')])])],
          fs = \<lparr>accounts_json = None, credentials_json = None, written = []\<rparr>\<rparr>,
       console = [''Error: Account '' @ quoted ''a@x.com'' @ '' already exists''],
       authorizations = 0\<rparr>, Exited 1)"
  using accounts_add_existing_email [of "[''add'', ''a@x.com'']" "''a@x.com''" "[]"
      "\<lparr>storage =
         \<lparr>accounts = [(JString ''a@x.com'',
                        JObject [(''email'', JString ''a@x.com''),
                                 (''oauth2'', JObject [(''clientId'', JString ''c''),
                                                       (''clientSecret'', JString ''s''),
                                                       (''refreshToken'', JString ''r'')])])],
          fs = \<lparr>accounts_json = None, credentials_json = None, written = []\<rparr>\<rparr>,
       console = [], authorizations = 0\<rparr>"
      "JSON_parse_of []" "JSON_stringify_of []"
      "\<lambda>manual. Inr \<lparr>refreshToken = JString ''new'', accessToken = JUndefined\<rparr>"]
  by (simp add: hasAccount_def Map_has_def)

end
